theory Spec2Isabelle
  imports Complex_Main "HOL-Library.AList"
begin

section \<open>The HDF5 loader (robowflex\_library/src/io/hdf5.cpp)\<close>

subsection \<open>The container, as the HDF5 library presents it\<close>

text \<open>
  The type class of a dataset's elements (\<open>H5T_class_t\<close> of the HDF5 library), the kind
  of an object of a container (\<open>H5O_type_t\<close>) and the memory types that
  \<open>getDataProperties\<close> names (\<open>H5::PredType\<close>).
\<close>

datatype H5T_class_t =
    H5T_NO_CLASS | H5T_INTEGER | H5T_FLOAT | H5T_TIME | H5T_STRING | H5T_BITFIELD
  | H5T_OPAQUE | H5T_COMPOUND | H5T_REFERENCE | H5T_ENUM | H5T_VLEN | H5T_ARRAY

datatype H5O_type_t =
    H5O_TYPE_UNKNOWN | H5O_TYPE_GROUP | H5O_TYPE_DATASET | H5O_TYPE_NAMED_DATATYPE

datatype PredType = NATIVE_INT | NATIVE_DOUBLE

text \<open>
  An object of a container is a group with its named children in index order, a dataset
  with its type class, its extent and its elements (of an arbitrary type \<open>'e\<close>), or a
  named datatype. A location (\<open>H5::H5File\<close> or \<open>H5::Group\<close>) is the list of the
  children found there.
\<close>

datatype 'e H5Object =
    H5Group "(string \<times> 'e H5Object) list"
  | H5DataSet H5T_class_t "nat list" 'e
  | H5NamedDatatype

type_synonym 'e location = "(string \<times> 'e H5Object) list"

text \<open>
  What can go wrong: the library throws (\<open>H5Exception\<close>) when a name is not found or
  names an object of another kind; \<open>NoValueReturned\<close> marks the use of the value of
  \<open>getDataProperties\<close> where that function returned none.
\<close>

datatype h5_error = H5Exception | NoValueReturned

definition getNumObjs :: "'e location \<Rightarrow> nat" where
  "getNumObjs location = length location"

definition getObjnameByIdx :: "'e location \<Rightarrow> nat \<Rightarrow> string" where
  "getObjnameByIdx location i = fst (location ! i)"

definition childObjType :: "'e location \<Rightarrow> string \<Rightarrow> h5_error + H5O_type_t" where
  "childObjType location name =
     (case map_of location name of
        None \<Rightarrow> Inl H5Exception
      | Some (H5Group _) \<Rightarrow> Inr H5O_TYPE_GROUP
      | Some (H5DataSet _ _ _) \<Rightarrow> Inr H5O_TYPE_DATASET
      | Some H5NamedDatatype \<Rightarrow> Inr H5O_TYPE_NAMED_DATATYPE)"

definition openGroup :: "'e location \<Rightarrow> string \<Rightarrow> h5_error + 'e location" where
  "openGroup location name =
     (case map_of location name of
        Some (H5Group children) \<Rightarrow> Inr children
      | _ \<Rightarrow> Inl H5Exception)"

definition openDataSet ::
  "'e location \<Rightarrow> string \<Rightarrow> h5_error + (H5T_class_t \<times> nat list \<times> 'e)" where
  "openDataSet location name =
     (case map_of location name of
        Some (H5DataSet cls extent elems) \<Rightarrow> Inr (cls, extent, elems)
      | _ \<Rightarrow> Inl H5Exception)"

subsection \<open>\<open>IO::HDF5Data\<close>\<close>

text \<open>
  \<open>getDataProperties\<close> is a \<open>switch\<close> on \<open>type_\<close> with a \<open>return\<close> in the cases
  \<open>H5T_INTEGER\<close> and \<open>H5T_FLOAT\<close>; the \<open>default\<close> case is a \<open>break\<close>, after which
  control reaches the end of a function that returns a tuple: no value is returned and
  nothing is thrown. That outcome is \<open>None\<close> here. The sizes of \<open>int\<close> and of
  \<open>double\<close> are those of the platform and are parameters.
\<close>

definition getDataProperties ::
  "nat \<Rightarrow> nat \<Rightarrow> H5T_class_t \<Rightarrow> (PredType \<times> nat \<times> string) option" where
  "getDataProperties sizeof_int sizeof_double ty =
     (case ty of
        H5T_INTEGER \<Rightarrow> Some (NATIVE_INT, sizeof_int, ''integer'')
      | H5T_FLOAT \<Rightarrow> Some (NATIVE_DOUBLE, sizeof_double, ''double'')
      | _ \<Rightarrow> None)"

text \<open>
  The members \<open>type_\<close>, \<open>rank_\<close>, \<open>dims_\<close> and \<open>data_\<close> of an \<open>HDF5Data\<close>. The raw
  buffer \<open>data_\<close> is modelled by what was read into it: the memory type asked for and the
  elements of the dataset; its size in bytes is not part of the model.
\<close>

record 'e HDF5Data =
  h5type :: H5T_class_t
  h5rank :: nat
  h5dims :: "nat list"
  h5data :: "PredType \<times> 'e"

text \<open>
  The constructor opens the dataset \<open>name\<close> at \<open>location\<close>, records class, rank and
  extent, and reads the elements with the memory type of \<open>getDataProperties\<close>.
\<close>

definition HDF5Data ::
  "nat \<Rightarrow> nat \<Rightarrow> 'e location \<Rightarrow> string \<Rightarrow> h5_error + 'e HDF5Data" where
  "HDF5Data si sd location name =
     (case openDataSet location name of
        Inl e \<Rightarrow> Inl e
      | Inr (cls, extent, elems) \<Rightarrow>
          (case getDataProperties si sd cls of
             None \<Rightarrow> Inl NoValueReturned
           | Some properties \<Rightarrow>
               Inr \<lparr>h5type = cls, h5rank = length extent, h5dims = extent,
                    h5data = (fst properties, elems)\<rparr>))"




text \<open>
  The three accessors are \<open>const\<close> member functions; each is modelled as returning its
  result together with the object as the call leaves it.
\<close>

definition getDims :: "'e HDF5Data \<Rightarrow> nat list \<times> 'e HDF5Data" where
  "getDims d = (take (h5rank d) (h5dims d), d)"



subsection \<open>\<open>IO::HDF5File\<close>\<close>

text \<open>
  A node of the tree (\<open>Node\<close>, a variant) is a dataset or a map from names to nodes; a
  \<open>std::map\<close> is an association list, written with \<open>AList.update\<close> where the source
  assigns \<open>node[key] = value\<close>.
\<close>

datatype 'e Node = Data "'e HDF5Data" | NodeMap "(string \<times> 'e Node) list"

type_synonym 'e node_map = "(string \<times> 'e Node) list"

definition listObjects :: "'e location \<Rightarrow> string list" where
  "listObjects location = map (getObjnameByIdx location) [0..<getNumObjs location]"

text \<open>
  Every call of \<open>loadData\<close> classifies one object. The calls are recorded in call order
  as visits: the name of the object and the kind found.
\<close>

type_synonym visit = "string \<times> H5O_type_t"

lemma map_of_group_smaller:
  "map_of location name = Some (H5Group grp) \<Longrightarrow>
   size_list (size_prod (\<lambda>_. 0) size) grp < size_list (size_prod (\<lambda>_. 0) size) location"
  by (induction location) (auto split: if_splits)

lemma openGroup_smaller:
  "openGroup location name = Inr grp \<Longrightarrow>
   size_list (size_prod (\<lambda>_. 0) size) grp < size_list (size_prod (\<lambda>_. 0) size) location"
  by (auto simp: openGroup_def dest: map_of_group_smaller split: option.splits H5Object.splits)

text \<open>
  \<open>loadData(node, location, name)\<close>. The first argument pairs the map \<open>node\<close>, which the
  source updates in place, with the visits so far. In the group case the source assigns
  an empty map to \<open>node[obj]\<close> for every child \<open>obj\<close> of the opened group and calls
  itself on that map, the opened group and \<open>obj\<close>; the call fills the empty map, which
  is then the value of \<open>node[obj]\<close>.
\<close>

function loadData ::
  "nat \<Rightarrow> nat \<Rightarrow> 'e node_map \<times> visit list \<Rightarrow> 'e location \<Rightarrow> string
   \<Rightarrow> h5_error + 'e node_map \<times> visit list" where
  "loadData si sd nv location name =
     (case (if name \<noteq> [] then childObjType location name else Inr H5O_TYPE_GROUP) of
        Inl e \<Rightarrow> Inl e
      | Inr ty \<Rightarrow>
          (let node = fst nv; visited = snd nv @ [(name, ty)] in
           case ty of
             H5O_TYPE_GROUP \<Rightarrow>
               (case openGroup location name of
                  Inl e \<Rightarrow> Inl e
                | Inr grp \<Rightarrow>
                    fold (\<lambda>obj acc.
                            case acc of
                              Inl e \<Rightarrow> Inl e
                            | Inr (nd, vis) \<Rightarrow>
                                (case loadData si sd ([], vis) grp obj of
                                   Inl e \<Rightarrow> Inl e
                                 | Inr (sub, vis') \<Rightarrow>
                                     Inr (AList.update obj (NodeMap sub)
                                            (AList.update obj (NodeMap []) nd), vis')))
                         (listObjects grp) (Inr (node, visited)))
           | H5O_TYPE_DATASET \<Rightarrow>
               (case HDF5Data si sd location name of
                  Inl e \<Rightarrow> Inl e
                | Inr data \<Rightarrow> Inr (AList.update name (Data data) node, visited))
           | _ \<Rightarrow> Inr (node, visited)))"
  by pat_completeness auto
termination
  apply (relation "measure (\<lambda>(si, sd, nv, location, name).
                     size_list (size_prod (\<lambda>_. 0) size) location)")
   apply simp
  apply (auto dest: openGroup_smaller)
  done

declare loadData.simps [simp del]

text \<open>The body of the loop over the children of a group, as a function of its own.\<close>

definition load_child ::
  "nat \<Rightarrow> nat \<Rightarrow> 'e location \<Rightarrow> string \<Rightarrow> h5_error + 'e node_map \<times> visit list
   \<Rightarrow> h5_error + 'e node_map \<times> visit list" where
  "load_child si sd grp obj acc =
     (case acc of
        Inl e \<Rightarrow> Inl e
      | Inr (nd, vis) \<Rightarrow>
          (case loadData si sd ([], vis) grp obj of
             Inl e \<Rightarrow> Inl e
           | Inr (sub, vis') \<Rightarrow>
               Inr (AList.update obj (NodeMap sub) (AList.update obj (NodeMap []) nd), vis')))"

text \<open>
  The constructor of \<open>HDF5File\<close>, given the opened file: \<open>loadData\<close> on the member
  \<open>data_\<close> (empty at first), the file and each of its objects in turn. The result is
  \<open>data_\<close> with the visits made, or the error that ended the construction.
\<close>

definition HDF5File ::
  "nat \<Rightarrow> nat \<Rightarrow> 'e location \<Rightarrow> h5_error + 'e node_map \<times> visit list" where
  "HDF5File si sd file =
     fold (\<lambda>obj acc. case acc of Inl e \<Rightarrow> Inl e | Inr nv \<Rightarrow> loadData si sd nv file obj)
       (listObjects file) (Inr ([], []))"

subsection \<open>What the loader is compared with\<close>







text \<open>The shapes of the leaves of a tree and of the datasets of a container.\<close>

fun leaf_dims :: "'e Node \<Rightarrow> nat list list" where
  "leaf_dims (Data d) = [fst (getDims d)]"
| "leaf_dims (NodeMap m) = concat (map (\<lambda>(n, c). leaf_dims c) m)"

fun dataset_dims :: "'e H5Object \<Rightarrow> nat list list" where
  "dataset_dims (H5Group children) = concat (map (\<lambda>(n, c). dataset_dims c) children)"
| "dataset_dims (H5DataSet cls extent elems) = [extent]"
| "dataset_dims H5NamedDatatype = []"

subsection \<open>Two containers\<close>

text \<open>Two groups at the top, \<open>a\<close> and \<open>b\<close>, each with one dataset \<open>x\<close>.\<close>

definition two_groups :: "real list location" where
  "two_groups =
     [(''a'', H5Group [(''x'', H5DataSet H5T_INTEGER [2, 3] [1, 2, 3, 4, 5, 6])]),
      (''b'', H5Group [(''x'', H5DataSet H5T_FLOAT [4] [0.5, 1.5, 2.5, 3.5])])]"



section \<open>The request builder and the planners (src/unnamed/part\_000)\<close>

subsection \<open>Messages\<close>

text \<open>
  Joint values are \<open>double\<close>s in the source; they are only stored and passed on, never
  computed with, and are real numbers here.

  Of a \<open>moveit_msgs::RobotState\<close> the source reads \<open>joint_state.position\<close>; what the
  message holds besides (the state of the multi-DOF joints, which is where a virtual joint
  lives) is of an arbitrary type \<open>'md\<close>.
\<close>

type_synonym joints = "real list"

record 'md RobotStateMsg =
  joint_state_position :: joints
  multi_dof_joint_state :: 'md

text \<open>
  A \<open>moveit_msgs::Constraints\<close> with the lists the source fills, and its default
  constructor (every list empty).
\<close>

record ('jc, 'pc, 'oc) Constraints =
  joint_constraints :: "'jc list"
  position_constraints :: "'pc list"
  orientation_constraints :: "'oc list"

definition Constraints :: "('jc, 'pc, 'oc) Constraints" where
  "Constraints =
     \<lparr>joint_constraints = [], position_constraints = [], orientation_constraints = []\<rparr>"

text \<open>The fields of a \<open>MotionPlanRequest\<close> that the source sets.\<close>

record ('md, 'c) MotionPlanRequest =
  group_name :: string
  workspace_parameters :: "(real \<times> real \<times> real) \<times> (real \<times> real \<times> real)"
  allowed_planning_time :: real
  planner_id :: string
  start_state :: "'md RobotStateMsg"
  goal_constraints :: "'c list"

text \<open>
  A \<open>planning_interface::MotionPlanResponse\<close> and its default constructor: no
  trajectory, planning time 0, and the error code of a default-constructed
  \<open>MoveItErrorCodes\<close>, which is 0. \<open>SUCCESS\<close> and \<open>FAILURE\<close> are the constants of
  \<open>moveit_msgs::MoveItErrorCodes\<close>.
\<close>

definition SUCCESS :: int where
  "SUCCESS = 1"

definition FAILURE :: int where
  "FAILURE = 99999"

record 'traj MotionPlanResponse =
  trajectory :: "'traj option"
  planning_time :: real
  error_code_val :: int

definition MotionPlanResponse :: "'traj MotionPlanResponse" where
  "MotionPlanResponse = \<lparr>trajectory = None, planning_time = 0, error_code_val = 0\<rparr>"

subsection \<open>\<open>MotionRequestBuilder\<close>\<close>

text \<open>
  The builder's \<open>robot_\<close> and \<open>jmg_\<close> never change; the operations of MoveIt's
  \<open>RobotState\<close> on this robot model and joint group are parameters: a new state, its
  default values, setting the positions of the group, and the conversion to a message.
  The state of a builder is its member \<open>request_\<close>.
\<close>

record ('rs, 'md) robot_state_ops =
  RobotState :: 'rs
  setToDefaultValues :: "'rs \<Rightarrow> 'rs"
  setJointGroupPositions :: "joints \<Rightarrow> 'rs \<Rightarrow> 'rs"
  robotStateToRobotStateMsg :: "'rs \<Rightarrow> 'md RobotStateMsg"

definition setStartConfiguration ::
  "('rs, 'md) robot_state_ops \<Rightarrow> joints \<Rightarrow> ('md, 'c) MotionPlanRequest
   \<Rightarrow> ('md, 'c) MotionPlanRequest" where
  "setStartConfiguration ops joints request =
     (let start_state0 = RobotState ops;
          start_state1 = setToDefaultValues ops start_state0;
          start_state2 = setJointGroupPositions ops joints start_state1
      in request\<lparr>start_state := robotStateToRobotStateMsg ops start_state2\<rparr>)"

text \<open>
  \<open>constructGoalConstraints\<close> (of MoveIt) is a parameter. Both setters \<open>clear\<close> the
  list of goal constraints and then \<open>push_back\<close> one entry.
\<close>

definition setGoalConfiguration ::
  "('rs, 'md) robot_state_ops \<Rightarrow> ('rs \<Rightarrow> 'c) \<Rightarrow> joints \<Rightarrow> ('md, 'c) MotionPlanRequest
   \<Rightarrow> ('md, 'c) MotionPlanRequest" where
  "setGoalConfiguration ops constructGoalConstraints joints request =
     (let goal_state0 = RobotState ops;
          goal_state1 = setJointGroupPositions ops joints goal_state0;
          cleared = request\<lparr>goal_constraints := []\<rparr>
      in cleared\<lparr>goal_constraints :=
                   goal_constraints cleared @ [constructGoalConstraints goal_state1]\<rparr>)"

text \<open>
  \<open>TF::getPositionConstraint\<close> and \<open>TF::getOrientationConstraint\<close> are parameters, and
  so are the types of a pose, a geometry, a quaternion and the tolerances.
\<close>

definition setGoalRegion ::
  "(string \<Rightarrow> string \<Rightarrow> 'pose \<Rightarrow> 'geom \<Rightarrow> 'pc) \<Rightarrow> (string \<Rightarrow> string \<Rightarrow> 'quat \<Rightarrow> 'tol \<Rightarrow> 'oc)
   \<Rightarrow> string \<Rightarrow> string \<Rightarrow> 'pose \<Rightarrow> 'geom \<Rightarrow> 'quat \<Rightarrow> 'tol
   \<Rightarrow> ('md, ('jc, 'pc, 'oc) Constraints) MotionPlanRequest
   \<Rightarrow> ('md, ('jc, 'pc, 'oc) Constraints) MotionPlanRequest" where
  "setGoalRegion getPositionConstraint getOrientationConstraint
       ee_name base_name pose geometry orientation tolerances request =
     (let constraints0 = Constraints;
          constraints1 = constraints0\<lparr>position_constraints :=
             position_constraints constraints0
               @ [getPositionConstraint ee_name base_name pose geometry]\<rparr>;
          constraints2 = constraints1\<lparr>orientation_constraints :=
             orientation_constraints constraints1
               @ [getOrientationConstraint ee_name base_name orientation tolerances]\<rparr>;
          cleared = request\<lparr>goal_constraints := []\<rparr>
      in cleared\<lparr>goal_constraints := goal_constraints cleared @ [constraints2]\<rparr>)"

definition getRequest :: "('md, 'c) MotionPlanRequest \<Rightarrow> ('md, 'c) MotionPlanRequest" where
  "getRequest request = request"

subsection \<open>The planners\<close>

text \<open>
  The planning backends are parameters. Each \<open>plan\<close> returns its response, the backend
  as the call leaves it, and the calls it made to the backend, in order.
\<close>

datatype backend_call = GeneratePlan | GetPlanningContext | Clear | Solve

text \<open>
  \<open>PipelinePlanner::plan\<close>: \<open>pipeline_\<close> is a pointer that may be null;
  \<open>generatePlan\<close> fills the response it is given.
\<close>

definition PipelinePlanner_plan ::
  "('pl \<Rightarrow> 'sc \<Rightarrow> ('md, 'c) MotionPlanRequest \<Rightarrow> 'traj MotionPlanResponse
      \<Rightarrow> 'traj MotionPlanResponse \<times> 'pl)
   \<Rightarrow> 'pl option \<Rightarrow> 'sc \<Rightarrow> ('md, 'c) MotionPlanRequest
   \<Rightarrow> 'traj MotionPlanResponse \<times> 'pl option \<times> backend_call list" where
  "PipelinePlanner_plan generatePlan pipeline scene request =
     (let response = MotionPlanResponse in
      case pipeline of
        Some p \<Rightarrow>
          (let (response', p') = generatePlan p scene request response
           in (response', Some p', [GeneratePlan]))
      | None \<Rightarrow> (response, None, []))"

text \<open>
  \<open>OMPL::OMPLInterfacePlanner::plan\<close>: \<open>getPlanningContext\<close> returns a pointer that may
  be null; \<open>solve\<close> fills the response and returns a flag, which the source ignores.
\<close>

definition OMPLInterfacePlanner_plan ::
  "('if \<Rightarrow> 'sc \<Rightarrow> ('md, 'c) MotionPlanRequest \<Rightarrow> 'ctx option \<times> 'if)
   \<Rightarrow> ('ctx \<Rightarrow> 'ctx)
   \<Rightarrow> ('ctx \<Rightarrow> 'traj MotionPlanResponse \<Rightarrow> bool \<times> 'traj MotionPlanResponse)
   \<Rightarrow> 'if \<Rightarrow> 'sc \<Rightarrow> ('md, 'c) MotionPlanRequest
   \<Rightarrow> 'traj MotionPlanResponse \<times> 'if \<times> backend_call list" where
  "OMPLInterfacePlanner_plan getPlanningContext clear solve interface scene request =
     (let response = MotionPlanResponse\<lparr>error_code_val := FAILURE\<rparr>;
          (context, interface') = getPlanningContext interface scene request
      in case context of
           None \<Rightarrow> (response, interface', [GetPlanningContext])
         | Some ctx \<Rightarrow>
             (let ctx' = clear ctx;
                  (result, response') = solve ctx' response
              in (response', interface', [GetPlanningContext, Clear, Solve])))"

section \<open>The linear multi-goal planner (tmpack/src/tmpack\_interface.cpp)\<close>

subsection \<open>The objects \<open>TMPackInterface\<close> refers to\<close>

text \<open>
  \<open>TMPackInterface\<close> holds references to a robot, a scene, a planner (an
  \<open>OMPLPipelinePlanner\<close>, of which \<open>pipeline_\<close> matters here; its \<open>plan\<close> is
  \<open>PipelinePlanner::plan\<close>), a request builder and the two helper objects. The types of
  the robot, the scene, the pipeline and of what the helpers keep are arbitrary.
\<close>

record ('rb, 'sc, 'pl, 'hs, 'md, 'c) world =
  robot :: 'rb
  scene :: 'sc
  pipeline :: "'pl option"
  request :: "('md, 'c) MotionPlanRequest"
  helpers :: 'hs

text \<open>
  The collaborators of the loop, all parameters:
  \<^item> the two \<open>_planLinearly_Callback\<close>s, pure virtual in the source. They get the
    builder and the robot by reference and are objects with references of their own, so
    each is a function on all the objects; its first argument is the goal and, for the
    constraint helper, the second the joint positions it is given;
  \<^item> \<open>generatePlan\<close> of the planning pipeline;
  \<^item> \<open>getFinalJointPositions\<close>, from a response to a map from joint names to values;
  \<^item> \<open>Robot::getState\<close> and the two overloads of \<open>Robot::setState\<close> (of a vector and
    of a map from names to values);
  \<^item> the operations on a \<open>RobotState\<close> that \<open>setStartConfiguration\<close> uses.
\<close>

record ('rb, 'sc, 'pl, 'hs, 'md, 'c, 'traj, 'rs) collaborators =
  constraint_helper_planLinearly_Callback ::
    "joints \<Rightarrow> joints \<Rightarrow> ('rb, 'sc, 'pl, 'hs, 'md, 'c) world
     \<Rightarrow> ('rb, 'sc, 'pl, 'hs, 'md, 'c) world"
  scene_graph_helper_planLinearly_Callback ::
    "joints \<Rightarrow> ('rb, 'sc, 'pl, 'hs, 'md, 'c) world \<Rightarrow> ('rb, 'sc, 'pl, 'hs, 'md, 'c) world"
  generatePlan ::
    "'pl \<Rightarrow> 'sc \<Rightarrow> ('md, 'c) MotionPlanRequest \<Rightarrow> 'traj MotionPlanResponse
     \<Rightarrow> 'traj MotionPlanResponse \<times> 'pl"
  getFinalJointPositions :: "'traj MotionPlanResponse \<Rightarrow> (string \<times> real) list"
  getState :: "'rb \<Rightarrow> joints"
  setState :: "joints \<Rightarrow> 'rb \<Rightarrow> 'rb"
  setState_named :: "(string \<times> real) list \<Rightarrow> 'rb \<Rightarrow> 'rb"
  robot_state :: "('rs, 'md) robot_state_ops"

subsection \<open>\<open>plan_linearly\<close>\<close>

text \<open>
  The calls of the loop to the helpers and to the planner are recorded in order, each
  with its arguments (the planner's with the request it got and the response it gave).
  The state of the loop is the objects, the local variables
  \<open>next_start_joint_positions\<close> and \<open>responses\<close>, and the calls so far.
\<close>

datatype ('md, 'c, 'traj) call =
    ConstraintHelperCallback joints joints
  | SceneGraphHelperCallback joints
  | PlannerPlan "('md, 'c) MotionPlanRequest" "'traj MotionPlanResponse"

record ('rb, 'sc, 'pl, 'hs, 'md, 'c, 'traj) loop_state =
  objects :: "('rb, 'sc, 'pl, 'hs, 'md, 'c) world"
  next_start_joint_positions :: joints
  responses :: "'traj MotionPlanResponse list"
  calls :: "('md, 'c, 'traj) call list"

text \<open>The vector \<open>tmp\<close> of the source (the one for \<open>r2_start.yml\<close>).\<close>

definition tmp :: joints where
  "tmp = [1.98552, 0.0242871, 9.14127 / 10 ^ 5, 4.8366 / 10 ^ 6, - 2.4964 / 10 ^ 6, 1,
          - 6.53607 / 10 ^ 7]"

text \<open>
  Before the loop: \<open>responses\<close> is empty, and \<open>next_start_joint_positions\<close> is \<open>tmp\<close>
  with the joint positions of the request's start state inserted at its end.
\<close>

definition before_loop ::
  "('rb, 'sc, 'pl, 'hs, 'md, 'c) world \<Rightarrow> ('rb, 'sc, 'pl, 'hs, 'md, 'c, 'traj) loop_state" where
  "before_loop w =
     (let next_start = joint_state_position (start_state (getRequest (request w)))
      in \<lparr>objects = w, next_start_joint_positions = tmp @ next_start, responses = [],
          calls = []\<rparr>)"

text \<open>The first part of the loop body: the two callbacks.\<close>

definition run_callbacks ::
  "('rb, 'sc, 'pl, 'hs, 'md, 'c, 'traj, 'rs) collaborators \<Rightarrow> joints
   \<Rightarrow> ('rb, 'sc, 'pl, 'hs, 'md, 'c, 'traj) loop_state
   \<Rightarrow> ('rb, 'sc, 'pl, 'hs, 'md, 'c, 'traj) loop_state" where
  "run_callbacks env goal_conf st =
     (let w1 = constraint_helper_planLinearly_Callback env goal_conf
                 (next_start_joint_positions st) (objects st);
          w2 = scene_graph_helper_planLinearly_Callback env goal_conf w1
      in st\<lparr>objects := w2,
            calls := calls st @ [ConstraintHelperCallback goal_conf (next_start_joint_positions st),
                                 SceneGraphHelperCallback goal_conf]\<rparr>)"

text \<open>
  The rest of the body: \<open>planner.plan\<close> and \<open>push_back\<close> of its response; the final
  joint positions of the response; the robot's state saved in \<open>temp\<close>, set to those
  positions, read back into \<open>next_start_joint_positions\<close> and set to \<open>temp\<close> again; and
  \<open>setStartConfiguration\<close> of the request. The line written to \<open>std::cout\<close> is left
  out, and so is the planner's own record of its calls to the pipeline.
\<close>

definition plan_and_reseed ::
  "('rb, 'sc, 'pl, 'hs, 'md, 'c, 'traj, 'rs) collaborators
   \<Rightarrow> ('rb, 'sc, 'pl, 'hs, 'md, 'c, 'traj) loop_state
   \<Rightarrow> ('rb, 'sc, 'pl, 'hs, 'md, 'c, 'traj) loop_state" where
  "plan_and_reseed env st =
     (let w = objects st;
          (response, pipeline', backend) =
             PipelinePlanner_plan (generatePlan env) (pipeline w) (scene w)
               (getRequest (request w));
          named_joint_positions = getFinalJointPositions env response;
          temp = getState env (robot w);
          robot1 = setState_named env named_joint_positions (robot w);
          next_start = getState env robot1;
          robot2 = setState env temp robot1
      in \<lparr>objects = w\<lparr>robot := robot2, pipeline := pipeline',
                         request := setStartConfiguration (robot_state env) next_start
                                      (request w)\<rparr>,
          next_start_joint_positions = next_start,
          responses = responses st @ [response],
          calls = calls st @ [PlannerPlan (getRequest (request w)) response]\<rparr>)"

definition iteration ::
  "('rb, 'sc, 'pl, 'hs, 'md, 'c, 'traj, 'rs) collaborators \<Rightarrow> joints
   \<Rightarrow> ('rb, 'sc, 'pl, 'hs, 'md, 'c, 'traj) loop_state
   \<Rightarrow> ('rb, 'sc, 'pl, 'hs, 'md, 'c, 'traj) loop_state" where
  "iteration env goal_conf st = plan_and_reseed env (run_callbacks env goal_conf st)"

text \<open>The loop over the goals, and \<open>plan_linearly\<close>, which returns \<open>responses\<close>.\<close>

definition plan_linearly_run ::
  "('rb, 'sc, 'pl, 'hs, 'md, 'c, 'traj, 'rs) collaborators \<Rightarrow> joints list
   \<Rightarrow> ('rb, 'sc, 'pl, 'hs, 'md, 'c) world
   \<Rightarrow> ('rb, 'sc, 'pl, 'hs, 'md, 'c, 'traj) loop_state" where
  "plan_linearly_run env goals w = fold (iteration env) goals (before_loop w)"

definition plan_linearly ::
  "('rb, 'sc, 'pl, 'hs, 'md, 'c, 'traj, 'rs) collaborators \<Rightarrow> joints list
   \<Rightarrow> ('rb, 'sc, 'pl, 'hs, 'md, 'c) world \<Rightarrow> 'traj MotionPlanResponse list" where
  "plan_linearly env goals w = responses (plan_linearly_run env goals w)"

subsection \<open>Points of a run, and what is read off the recorded calls\<close>

text \<open>The state of the loop when it enters the iteration for goal number \<open>n\<close>.\<close>

definition entering ::
  "('rb, 'sc, 'pl, 'hs, 'md, 'c, 'traj, 'rs) collaborators \<Rightarrow> joints list
   \<Rightarrow> ('rb, 'sc, 'pl, 'hs, 'md, 'c) world \<Rightarrow> nat
   \<Rightarrow> ('rb, 'sc, 'pl, 'hs, 'md, 'c, 'traj) loop_state" where
  "entering env goals w n = fold (iteration env) (take n goals) (before_loop w)"

text \<open>The response \<open>planner.plan\<close> gives in state \<open>st\<close>.\<close>

definition planner_response ::
  "('rb, 'sc, 'pl, 'hs, 'md, 'c, 'traj, 'rs) collaborators
   \<Rightarrow> ('rb, 'sc, 'pl, 'hs, 'md, 'c, 'traj) loop_state \<Rightarrow> 'traj MotionPlanResponse" where
  "planner_response env st =
     fst (PipelinePlanner_plan (generatePlan env) (pipeline (objects st)) (scene (objects st))
            (getRequest (request (objects st))))"

fun planner_responses :: "('md, 'c, 'traj) call list \<Rightarrow> 'traj MotionPlanResponse list" where
  "planner_responses [] = []"
| "planner_responses (PlannerPlan rq res # cs) = res # planner_responses cs"
| "planner_responses (_ # cs) = planner_responses cs"

fun planner_requests :: "('md, 'c, 'traj) call list \<Rightarrow> ('md, 'c) MotionPlanRequest list" where
  "planner_requests [] = []"
| "planner_requests (PlannerPlan rq res # cs) = rq # planner_requests cs"
| "planner_requests (_ # cs) = planner_requests cs"

text \<open>A call without the values that depend on the run: which step it is, for which goal.\<close>

datatype step = ConstraintHelper joints | SceneGraphHelper joints | ExternalPlanner

fun step_of :: "('md, 'c, 'traj) call \<Rightarrow> step" where
  "step_of (ConstraintHelperCallback goal_conf joint_positions) = ConstraintHelper goal_conf"
| "step_of (SceneGraphHelperCallback goal_conf) = SceneGraphHelper goal_conf"
| "step_of (PlannerPlan rq res) = ExternalPlanner"

subsection \<open>A small world: one arm joint on a floating base\<close>

text \<open>
  A robot with eight variables, seven of a floating virtual joint and one arm joint.
  \<open>setState\<close> of a map changes the variables the map names. The start-state message
  carries the arm joint in \<open>joint_state.position\<close> and the virtual joint beside it. The
  constraint helper sets the goal of the request, the scene-graph helper counts its calls,
  and the planner reaches a goal of one value and fails on any other goal.
\<close>

record toy_robot =
  variable_names :: "string list"
  variable_positions :: joints

type_synonym toy_world = "(toy_robot, unit, nat, nat, joints, joints) world"

type_synonym toy_response = "(string \<times> real) list list MotionPlanResponse"

definition toy_robot_state :: "(joints, joints) robot_state_ops" where
  "toy_robot_state =
     \<lparr>RobotState = [],
      setToDefaultValues = (\<lambda>_. [0, 0, 0, 0, 0, 0, 1, 0]),
      setJointGroupPositions = (\<lambda>joints rs. joints),
      robotStateToRobotStateMsg =
        (\<lambda>rs. \<lparr>joint_state_position = drop 7 rs, multi_dof_joint_state = take 7 rs\<rparr>)\<rparr>"

definition toy_generatePlan ::
  "nat \<Rightarrow> unit \<Rightarrow> (joints, joints) MotionPlanRequest \<Rightarrow> toy_response
   \<Rightarrow> toy_response \<times> nat" where
  "toy_generatePlan p sc rq res =
     (case goal_constraints rq of
        [] \<Rightarrow> (res\<lparr>error_code_val := FAILURE\<rparr>, Suc p)
      | goal # _ \<Rightarrow>
          if length goal \<noteq> 1 then (res\<lparr>error_code_val := FAILURE\<rparr>, Suc p)
          else (res\<lparr>trajectory := Some [zip [''arm''] (joint_state_position (start_state rq)),
                                          zip [''arm''] goal],
                     error_code_val := SUCCESS\<rparr>, Suc p))"

definition toy_env ::
  "(toy_robot, unit, nat, nat, joints, joints, (string \<times> real) list list, joints)
     collaborators" where
  "toy_env =
     \<lparr>constraint_helper_planLinearly_Callback =
        (\<lambda>goal_conf joint_positions w.
           w\<lparr>request := setGoalConfiguration toy_robot_state (\<lambda>rs. rs) goal_conf (request w)\<rparr>),
      scene_graph_helper_planLinearly_Callback = (\<lambda>goal_conf w. w\<lparr>helpers := Suc (helpers w)\<rparr>),
      generatePlan = toy_generatePlan,
      getFinalJointPositions =
        (\<lambda>res. case trajectory res of
                 None \<Rightarrow> []
               | Some waypoints \<Rightarrow> if waypoints = [] then [] else last waypoints),
      getState = variable_positions,
      setState = (\<lambda>positions rb. rb\<lparr>variable_positions := positions\<rparr>),
      setState_named =
        (\<lambda>variable_map rb.
           rb\<lparr>variable_positions :=
                map (\<lambda>(n, x). case map_of variable_map n of None \<Rightarrow> x | Some y \<Rightarrow> y)
                  (zip (variable_names rb) (variable_positions rb))\<rparr>),
      robot_state = toy_robot_state\<rparr>"

definition toy_world :: toy_world where
  "toy_world =
     \<lparr>robot = \<lparr>variable_names = [''base/x'', ''base/y'', ''base/z'', ''base/qx'', ''base/qy'',
                                  ''base/qz'', ''base/qw'', ''arm''],
               variable_positions = [0, 0, 0, 0, 0, 0, 1, 0]\<rparr>,
      scene = (),
      pipeline = Some 0,
      request = \<lparr>group_name = ''arm_group'', workspace_parameters = ((-1, -1, -1), (1, 1, 1)),
                 allowed_planning_time = 5, planner_id = ''RRTConnect'',
                 start_state = \<lparr>joint_state_position = [0], multi_dof_joint_state = []\<rparr>,
                 goal_constraints = []\<rparr>,
      helpers = 0\<rparr>"

text \<open>
  The same world with a constraint helper that, besides setting the goal of the request,
  moves the arm of the robot to the goal.
\<close>

definition moving_env ::
  "(toy_robot, unit, nat, nat, joints, joints, (string \<times> real) list list, joints)
     collaborators" where
  "moving_env =
     toy_env\<lparr>constraint_helper_planLinearly_Callback :=
        (\<lambda>goal_conf joint_positions w.
           w\<lparr>robot := setState toy_env (take 7 (getState toy_env (robot w)) @ goal_conf) (robot w),
             request := setGoalConfiguration toy_robot_state (\<lambda>rs. rs) goal_conf (request w)\<rparr>)\<rparr>"

text \<open>Three goals; the planner fails on the second.\<close>

definition toy_goals :: "joints list" where
  "toy_goals = [[1 / 2], [], [1 / 4]]"

text \<open>A goal constraint and a request for the setters of the builder.\<close>

definition toy_constraints :: "joints \<Rightarrow> (real, string, string) Constraints" where
  "toy_constraints rs = Constraints\<lparr>joint_constraints := rs\<rparr>"

definition toy_request :: "(joints, (real, string, string) Constraints) MotionPlanRequest" where
  "toy_request =
     \<lparr>group_name = ''arm_group'', workspace_parameters = ((-1, -1, -1), (1, 1, 1)),
      allowed_planning_time = 5, planner_id = ''RRTConnect'',
      start_state = \<lparr>joint_state_position = [0], multi_dof_joint_state = []\<rparr>,
      goal_constraints = []\<rparr>"

section \<open>Properties of the HDF5 loader\<close>

subsection \<open>Auxiliary facts\<close>

lemma listObjects_names: "listObjects location = map fst location"
  by (auto simp: listObjects_def getNumObjs_def getObjnameByIdx_def intro: nth_equalityI)

lemma loadData_unfold:
  "loadData si sd nv location name =
     (case (if name \<noteq> [] then childObjType location name else Inr H5O_TYPE_GROUP) of
        Inl e \<Rightarrow> Inl e
      | Inr ty \<Rightarrow>
          (let node = fst nv; visited = snd nv @ [(name, ty)] in
           case ty of
             H5O_TYPE_GROUP \<Rightarrow>
               (case openGroup location name of
                  Inl e \<Rightarrow> Inl e
                | Inr grp \<Rightarrow> fold (load_child si sd grp) (listObjects grp) (Inr (node, visited)))
           | H5O_TYPE_DATASET \<Rightarrow>
               (case HDF5Data si sd location name of
                  Inl e \<Rightarrow> Inl e
                | Inr data \<Rightarrow> Inr (AList.update name (Data data) node, visited))
           | _ \<Rightarrow> Inr (node, visited)))"
  unfolding load_child_def by (rule loadData.simps)




lemmas load_defs =
  HDF5File_def listObjects_names loadData_unfold load_child_def childObjType_def openGroup_def
  HDF5Data_def openDataSet_def getDataProperties_def

subsection \<open>The claims\<close>

text \<open>
  C5. \<open>getDataProperties\<close> returns a defined triple of memory type, element size and
  name exactly when the type class is \<open>H5T_INTEGER\<close> or \<open>H5T_FLOAT\<close>: the integer
  triple for the former, the double triple for the latter. For every other type class it
  returns no value at all (the fall-through outcome); the function has no outcome that is
  an error.
\<close>

theorem getDataProperties_supported:
  "(getDataProperties si sd t \<noteq> None) = (t = H5T_INTEGER \<or> t = H5T_FLOAT)
   \<and> getDataProperties si sd H5T_INTEGER = Some (NATIVE_INT, si, ''integer'')
   \<and> getDataProperties si sd H5T_FLOAT = Some (NATIVE_DOUBLE, sd, ''double'')
   \<and> (getDataProperties si sd t = None) = (t \<noteq> H5T_INTEGER \<and> t \<noteq> H5T_FLOAT)"
  by (cases t) (simp_all add: getDataProperties_def)

theorem getDataProperties_supported_witness:
  "getDataProperties 4 8 H5T_INTEGER \<noteq> None
   \<and> getDataProperties 4 8 H5T_FLOAT = Some (NATIVE_DOUBLE, 8, ''double'')
   \<and> getDataProperties 4 8 H5T_STRING = None"
  using getDataProperties_supported [of 4 8 H5T_INTEGER]
    getDataProperties_supported [of 4 8 H5T_FLOAT]
    getDataProperties_supported [of 4 8 H5T_STRING]
  by simp

text \<open>
  C2. The claim is that the loaded tree mirrors the container: a nested mapping under the
  name of every group, a leaf under the name of every dataset, as many leaves as datasets
  and with the same shapes. What the loader builds for the container with the groups
  \<open>a\<close> and \<open>b\<close>, each holding one dataset \<open>x\<close>, is a tree with the single key \<open>x\<close>, under
  it a mapping with the single key \<open>x\<close>, and under that the dataset of \<open>b\<close>: nothing stands
  under \<open>a\<close> or \<open>b\<close>, and the tree has one leaf for two datasets.
\<close>

theorem HDF5File_two_groups:
  "HDF5File 4 8 two_groups =
     Inr ([(''x'', NodeMap [(''x'',
              Data \<lparr>h5type = H5T_FLOAT, h5rank = 1, h5dims = [4],
                    h5data = (NATIVE_DOUBLE, [0.5, 1.5, 2.5, 3.5])\<rparr>)])],
          [(''a'', H5O_TYPE_GROUP), (''x'', H5O_TYPE_DATASET), (''b'', H5O_TYPE_GROUP),
           (''x'', H5O_TYPE_DATASET)])
   \<and> map (map_of (fst (projr (HDF5File 4 8 two_groups)))) [''a'', ''b''] = [None, None]
   \<and> leaf_dims (NodeMap (fst (projr (HDF5File 4 8 two_groups)))) = [[4]]
   \<and> dataset_dims (H5Group two_groups) = [[2, 3], [4]]"
  by (simp add: load_defs two_groups_def getDims_def)




section \<open>Properties of the request builder, the planners and the linear planner\<close>

subsection \<open>Auxiliary facts\<close>

lemma planner_responses_append:
  "planner_responses (xs @ ys) = planner_responses xs @ planner_responses ys"
  by (induction xs rule: planner_responses.induct) simp_all

lemma planner_requests_append:
  "planner_requests (xs @ ys) = planner_requests xs @ planner_requests ys"
  by (induction xs rule: planner_requests.induct) simp_all

lemma responses_run_callbacks: "responses (run_callbacks env g st) = responses st"
  by (simp add: run_callbacks_def Let_def)

lemma calls_run_callbacks:
  "calls (run_callbacks env g st) =
     calls st @ [ConstraintHelperCallback g (next_start_joint_positions st),
                 SceneGraphHelperCallback g]"
  by (simp add: run_callbacks_def Let_def)

lemma responses_plan_and_reseed:
  "responses (plan_and_reseed env st) = responses st @ [planner_response env st]"
  by (simp add: plan_and_reseed_def planner_response_def Let_def split_def)

lemma calls_plan_and_reseed:
  "calls (plan_and_reseed env st) =
     calls st @ [PlannerPlan (request (objects st)) (planner_response env st)]"
  by (simp add: plan_and_reseed_def planner_response_def getRequest_def Let_def split_def)

lemma state_after_plan_and_reseed:
  "objects (plan_and_reseed env st) =
     (objects st)\<lparr>
       robot := setState env (getState env (robot (objects st)))
                  (setState_named env (getFinalJointPositions env (planner_response env st))
                     (robot (objects st))),
       pipeline := fst (snd (PipelinePlanner_plan (generatePlan env) (pipeline (objects st))
                               (scene (objects st)) (request (objects st)))),
       request := setStartConfiguration (robot_state env)
                    (getState env (setState_named env
                       (getFinalJointPositions env (planner_response env st))
                       (robot (objects st))))
                    (request (objects st))\<rparr>
   \<and> next_start_joint_positions (plan_and_reseed env st) =
       getState env (setState_named env (getFinalJointPositions env (planner_response env st))
                       (robot (objects st)))"
  by (simp add: plan_and_reseed_def planner_response_def getRequest_def Let_def split_def)

lemma responses_iteration:
  "responses (iteration env g st) =
     responses st @ [planner_response env (run_callbacks env g st)]"
  by (simp add: iteration_def responses_plan_and_reseed responses_run_callbacks)

lemma calls_iteration:
  "calls (iteration env g st) =
     calls st @ [ConstraintHelperCallback g (next_start_joint_positions st),
                 SceneGraphHelperCallback g,
                 PlannerPlan (request (objects (run_callbacks env g st)))
                   (planner_response env (run_callbacks env g st))]"
  by (simp add: iteration_def calls_plan_and_reseed calls_run_callbacks)

lemma entering_0: "entering env goals w 0 = before_loop w"
  by (simp add: entering_def)

lemma entering_Suc:
  "n < length goals \<Longrightarrow>
   entering env goals w (Suc n) = iteration env (goals ! n) (entering env goals w n)"
  by (simp add: entering_def take_Suc_conv_app_nth)

lemma entering_all: "entering env goals w (length goals) = plan_linearly_run env goals w"
  by (simp add: entering_def plan_linearly_run_def)

lemma responses_entering:
  "n \<le> length goals \<Longrightarrow>
   responses (entering env goals w n) =
     map (\<lambda>k. planner_response env (run_callbacks env (goals ! k) (entering env goals w k)))
       [0..<n]"
proof (induction n)
  case 0
  show ?case by (simp add: entering_0 before_loop_def Let_def)
next
  case (Suc n)
  then have "n < length goals" by simp
  with Suc show ?case by (simp add: entering_Suc responses_iteration)
qed

lemma calls_entering:
  "n \<le> length goals \<Longrightarrow>
   map step_of (calls (entering env goals w n)) =
     concat (map (\<lambda>g. [ConstraintHelper g, SceneGraphHelper g, ExternalPlanner])
               (take n goals))"
proof (induction n)
  case 0
  show ?case by (simp add: entering_0 before_loop_def Let_def)
next
  case (Suc n)
  then have "n < length goals" by simp
  with Suc show ?case by (simp add: entering_Suc calls_iteration take_Suc_conv_app_nth)
qed

lemma planner_calls_entering:
  "n \<le> length goals \<Longrightarrow>
   planner_responses (calls (entering env goals w n)) = responses (entering env goals w n)
   \<and> planner_requests (calls (entering env goals w n)) =
       map (\<lambda>k. request (objects (run_callbacks env (goals ! k) (entering env goals w k))))
         [0..<n]"
proof (induction n)
  case 0
  show ?case by (simp add: entering_0 before_loop_def Let_def)
next
  case (Suc n)
  then have "n < length goals" by simp
  with Suc show ?case
    by (simp add: entering_Suc calls_iteration responses_iteration planner_responses_append
        planner_requests_append)
qed

lemma calls_fold_iteration:
  "\<exists>ys. calls (fold (iteration env) gs st) = calls st @ ys"
proof (induction gs arbitrary: st)
  case Nil
  show ?case by simp
next
  case (Cons g gs)
  from Cons [of "iteration env g st"] show ?case
    by (auto simp: calls_iteration)
qed

lemma first_call:
  assumes "0 < length goals"
  shows "calls (plan_linearly_run env goals w) ! 0 =
           ConstraintHelperCallback (goals ! 0)
             (tmp @ joint_state_position (start_state (request w)))"
proof -
  from assms obtain g gs where goals: "goals = g # gs" by (cases goals) auto
  obtain ys where "calls (fold (iteration env) gs (iteration env g (before_loop w))) =
      calls (iteration env g (before_loop w)) @ ys"
    using calls_fold_iteration by blast
  then show ?thesis
    by (simp add: goals plan_linearly_run_def calls_iteration before_loop_def getRequest_def
        Let_def)
qed

text \<open>The run in the small world, by evaluation.\<close>

lemmas toy_defs =
  toy_env_def toy_world_def toy_goals_def toy_generatePlan_def toy_robot_state_def
  plan_linearly_run_def plan_linearly_def entering_def before_loop_def iteration_def
  run_callbacks_def plan_and_reseed_def PipelinePlanner_plan_def MotionPlanResponse_def
  setStartConfiguration_def setGoalConfiguration_def getRequest_def SUCCESS_def FAILURE_def

lemma toy_responses:
  "plan_linearly toy_env toy_goals toy_world =
     [\<lparr>trajectory = Some [[(''arm'', 0)], [(''arm'', 1 / 2)]], planning_time = 0,
        error_code_val = SUCCESS\<rparr>,
      \<lparr>trajectory = None, planning_time = 0, error_code_val = FAILURE\<rparr>,
      \<lparr>trajectory = Some [[(''arm'', 0)], [(''arm'', 1 / 4)]], planning_time = 0,
        error_code_val = SUCCESS\<rparr>]"
  by (simp add: toy_defs Let_def)

subsection \<open>The claims\<close>

text \<open>
  C1. The claim is that the start configuration passed to planning call \<open>N + 1\<close> is the
  hard-coded prefix \<open>tmp\<close> followed by the final joint positions of the response of call
  \<open>N\<close>. What the loop does: after call \<open>n\<close> it sets the robot to the final joint
  positions of the response, reads the robot's whole state back with \<open>getState\<close>, and
  gives that vector, with nothing put before it, to \<open>setStartConfiguration\<close>. The request
  so reseeded is the one on entry to the next iteration; the planner call of that
  iteration gets the request as the callbacks of that iteration leave it, so it gets the
  reseeded start state whenever they leave the start state alone. \<open>tmp\<close> is used once,
  before the loop: \<open>tmp\<close> followed by the joint positions of the request's first start
  state is the vector given to the first call of the constraint helper.
\<close>

theorem plan_linearly_next_start:
  assumes "Suc n < length goals"
  shows "(let at_call = (\<lambda>k. run_callbacks env (goals ! k) (entering env goals w k));
              final = getFinalJointPositions env (plan_linearly env goals w ! n);
              read_back = getState env (setState_named env final (robot (objects (at_call n))));
              reseeded = setStartConfiguration (robot_state env) read_back
                           (request (objects (at_call n)))
          in next_start_joint_positions (entering env goals w (Suc n)) = read_back
           \<and> request (objects (entering env goals w (Suc n))) = reseeded
           \<and> planner_requests (calls (plan_linearly_run env goals w)) ! Suc n =
               request (objects (at_call (Suc n)))
           \<and> (start_state (request (objects (at_call (Suc n)))) =
                  start_state (request (objects (entering env goals w (Suc n))))
                \<longrightarrow> start_state (planner_requests (calls (plan_linearly_run env goals w)) ! Suc n) =
                      start_state reseeded)
           \<and> calls (plan_linearly_run env goals w) ! 0 =
               ConstraintHelperCallback (goals ! 0)
                 (tmp @ joint_state_position (start_state (request w))))"
proof -
  from assms have n: "n < length goals" by simp
  have res: "plan_linearly env goals w ! n =
      planner_response env (run_callbacks env (goals ! n) (entering env goals w n))"
    using responses_entering [of "length goals" goals env w] n
    by (simp add: plan_linearly_def entering_all)
  have rq: "planner_requests (calls (plan_linearly_run env goals w)) ! Suc n =
      request (objects (run_callbacks env (goals ! Suc n) (entering env goals w (Suc n))))"
    using planner_calls_entering [of "length goals" goals env w] assms
    by (simp add: entering_all)
  have first: "calls (plan_linearly_run env goals w) ! 0 =
      ConstraintHelperCallback (goals ! 0)
        (tmp @ joint_state_position (start_state (request w)))"
  proof -
    from assms have "0 < length goals" by (cases goals) simp_all
    then show ?thesis by (rule first_call)
  qed
  show ?thesis
    unfolding Let_def
    using n by (simp add: res rq first entering_Suc iteration_def state_after_plan_and_reseed)
qed

theorem plan_linearly_next_start_witness:
  "Suc 0 < length toy_goals
   \<and> next_start_joint_positions (entering toy_env toy_goals toy_world (Suc 0)) =
       [0, 0, 0, 0, 0, 0, 1, 1 / 2]
   \<and> start_state (planner_requests (calls (plan_linearly_run toy_env toy_goals toy_world)) ! Suc 0) =
       start_state (setStartConfiguration (robot_state toy_env) [0, 0, 0, 0, 0, 0, 1, 1 / 2]
                      (request toy_world))
   \<and> calls (plan_linearly_run toy_env toy_goals toy_world) ! 0 =
       ConstraintHelperCallback [1 / 2] (tmp @ [0])"
  using plan_linearly_next_start [of 0 toy_goals toy_env toy_world]
  by (simp add: toy_defs Let_def)

theorem plan_linearly_next_start_counterexample:
  "next_start_joint_positions (entering toy_env toy_goals toy_world (Suc 0)) \<noteq>
     tmp @ map snd (getFinalJointPositions toy_env (plan_linearly toy_env toy_goals toy_world ! 0))
   \<and> start_state (planner_requests (calls (plan_linearly_run toy_env toy_goals toy_world)) ! Suc 0) \<noteq>
     start_state (setStartConfiguration (robot_state toy_env)
       (tmp @ map snd (getFinalJointPositions toy_env
                         (plan_linearly toy_env toy_goals toy_world ! 0)))
       (request toy_world))"
  by (simp add: toy_defs Let_def tmp_def)

text \<open>
  C3. The list \<open>plan_linearly\<close> returns holds, for every goal in order, the response
  that \<open>planner.plan\<close> gave in the state the callbacks for that goal left, as it was
  given: it is the list of the responses of the recorded planner calls. No response is
  looked at before the next goal is taken, so this holds whatever the error codes are.
\<close>

theorem plan_linearly_appends_every_response:
  "plan_linearly env goals w =
     map (\<lambda>n. planner_response env (run_callbacks env (goals ! n) (entering env goals w n)))
       [0..<length goals]
   \<and> plan_linearly env goals w = planner_responses (calls (plan_linearly_run env goals w))"
  using responses_entering [of "length goals" goals env w]
    planner_calls_entering [of "length goals" goals env w]
  by (simp add: plan_linearly_def entering_all)

theorem plan_linearly_appends_every_response_witness:
  "planner_responses (calls (plan_linearly_run toy_env toy_goals toy_world)) =
     plan_linearly toy_env toy_goals toy_world
   \<and> map error_code_val (plan_linearly toy_env toy_goals toy_world) = [SUCCESS, FAILURE, SUCCESS]"
proof -
  from plan_linearly_appends_every_response [of toy_env toy_goals toy_world]
  have "plan_linearly toy_env toy_goals toy_world =
      planner_responses (calls (plan_linearly_run toy_env toy_goals toy_world))"
    by (rule conjunct2)
  then have a: "planner_responses (calls (plan_linearly_run toy_env toy_goals toy_world)) =
      plan_linearly toy_env toy_goals toy_world"
    by (rule sym)
  have b: "map error_code_val (plan_linearly toy_env toy_goals toy_world) =
      [SUCCESS, FAILURE, SUCCESS]"
    by (simp add: toy_responses)
  from a b show ?thesis by (rule conjI)
qed

text \<open>
  C4. The list of responses \<open>plan_linearly\<close> returns is as long as the list of goals,
  the empty list included.
\<close>

theorem plan_linearly_length: "length (plan_linearly env goals w) = length goals"
  using responses_entering [of "length goals" goals env w]
  by (simp add: plan_linearly_def entering_all [symmetric])

theorem plan_linearly_length_witness:
  "length (plan_linearly toy_env toy_goals toy_world) = 3
   \<and> length (plan_linearly toy_env [] toy_world) = 0"
  using plan_linearly_length [of toy_env toy_goals toy_world]
    plan_linearly_length [of toy_env "[]" toy_world]
  by (simp add: toy_goals_def)

text \<open>
  C6. For the goal number \<open>n\<close>, taken when the goals before it are done: the callback of
  the constraint helper is applied, for that goal and with the joint positions of the
  loop, to the objects as the loop holds them; the callback of the scene-graph helper is
  applied, for that goal, to what the first callback returned; and the planner plans once,
  on the scene and the request that the second callback returned. The response of that
  one call is the response number \<open>n\<close> of the result, the request of that call is the request
  number \<open>n\<close> among the planner calls, and the next goal is taken with the pipeline as
  that one call left it and with the scene and the helpers as the second callback left
  them. The calls of a run are, goal after goal from left to right: constraint helper,
  scene-graph helper, planner.
\<close>

theorem plan_linearly_call_order:
  assumes "n < length goals"
  shows "(let st = entering env goals w n;
              w1 = constraint_helper_planLinearly_Callback env (goals ! n)
                     (next_start_joint_positions st) (objects st);
              w2 = scene_graph_helper_planLinearly_Callback env (goals ! n) w1;
              planned = PipelinePlanner_plan (generatePlan env) (pipeline w2) (scene w2)
                          (getRequest (request w2))
          in plan_linearly env goals w ! n = fst planned
           \<and> planner_requests (calls (plan_linearly_run env goals w)) ! n = request w2
           \<and> pipeline (objects (entering env goals w (Suc n))) = fst (snd planned)
           \<and> scene (objects (entering env goals w (Suc n))) = scene w2
           \<and> helpers (objects (entering env goals w (Suc n))) = helpers w2)
   \<and> map step_of (calls (plan_linearly_run env goals w)) =
       concat (map (\<lambda>g. [ConstraintHelper g, SceneGraphHelper g, ExternalPlanner]) goals)"
proof -
  have res: "plan_linearly env goals w ! n =
      planner_response env (run_callbacks env (goals ! n) (entering env goals w n))"
    using responses_entering [of "length goals" goals env w] assms
    by (simp add: plan_linearly_def entering_all)
  have rq: "planner_requests (calls (plan_linearly_run env goals w)) ! n =
      request (objects (run_callbacks env (goals ! n) (entering env goals w n)))"
    using planner_calls_entering [of "length goals" goals env w] assms
    by (simp add: entering_all)
  have order: "map step_of (calls (plan_linearly_run env goals w)) =
      concat (map (\<lambda>g. [ConstraintHelper g, SceneGraphHelper g, ExternalPlanner]) goals)"
    using calls_entering [of "length goals" goals env w]
    by (simp add: entering_all)
  show ?thesis
    unfolding Let_def
    using assms
    by (simp add: res rq order entering_Suc iteration_def state_after_plan_and_reseed
        planner_response_def run_callbacks_def getRequest_def Let_def)
qed

theorem plan_linearly_call_order_witness:
  "2 < length toy_goals
   \<and> map error_code_val (plan_linearly toy_env toy_goals toy_world) = [SUCCESS, FAILURE, SUCCESS]
   \<and> pipeline (objects (entering toy_env toy_goals toy_world (Suc 2))) = Some 3
   \<and> helpers (objects (entering toy_env toy_goals toy_world (Suc 2))) = 3
   \<and> goal_constraints (planner_requests (calls (plan_linearly_run toy_env toy_goals toy_world)) ! 2) =
       [[1 / 4]]
   \<and> map step_of (calls (plan_linearly_run toy_env toy_goals toy_world)) =
       [ConstraintHelper [1 / 2], SceneGraphHelper [1 / 2], ExternalPlanner,
        ConstraintHelper [], SceneGraphHelper [], ExternalPlanner,
        ConstraintHelper [1 / 4], SceneGraphHelper [1 / 4], ExternalPlanner]"
  using plan_linearly_call_order [of 2 toy_goals toy_env toy_world]
  by (simp add: toy_defs Let_def)

text \<open>
  C8. After \<open>setGoalConfiguration\<close> the list of goal constraints of the request is the
  one constraint constructed from the goal state, and after \<open>setGoalRegion\<close> it is the
  one constraint with the position and the orientation constraint of the region, whatever
  the list was before the call: its length is 1 after every call of either setter.
\<close>

theorem goal_setters_leave_one_constraint:
  "goal_constraints (setGoalConfiguration ops mk_goal joints rq) =
     [mk_goal (setJointGroupPositions ops joints (RobotState ops))]
   \<and> goal_constraints (setGoalRegion getPosition getOrientation ee base pose geometry orientation
        tolerances rq') =
     [\<lparr>joint_constraints = [],
       position_constraints = [getPosition ee base pose geometry],
       orientation_constraints = [getOrientation ee base orientation tolerances]\<rparr>]
   \<and> length (goal_constraints (setGoalConfiguration ops mk_goal joints rq)) = 1
   \<and> length (goal_constraints (setGoalRegion getPosition getOrientation ee base pose geometry
        orientation tolerances rq')) = 1"
  by (simp add: setGoalConfiguration_def setGoalRegion_def Constraints_def Let_def)

theorem goal_setters_leave_one_constraint_witness:
  "length (goal_constraints
     (setGoalRegion (\<lambda>ee base (pose :: real) (geometry :: real). ee)
        (\<lambda>ee base (q :: real) (t :: real). base) ''hand'' ''world'' 0 1 0 1
        (setGoalConfiguration toy_robot_state toy_constraints [1 / 4]
           (setGoalConfiguration toy_robot_state toy_constraints [1 / 2] toy_request)))) = 1
   \<and> goal_constraints
        (setGoalConfiguration toy_robot_state toy_constraints [1 / 4]
           (setGoalConfiguration toy_robot_state toy_constraints [1 / 2] toy_request)) =
       [toy_constraints [1 / 4]]"
  using goal_setters_leave_one_constraint
          [where ops = toy_robot_state and mk_goal = toy_constraints and joints = "[1 / 4]"
             and rq = "setGoalConfiguration toy_robot_state toy_constraints [1 / 2] toy_request"
             and getPosition = "\<lambda>ee base (pose :: real) (geometry :: real). ee"
             and getOrientation = "\<lambda>ee base (q :: real) (t :: real). base"
             and ee = "''hand''" and base = "''world''" and pose = 0 and geometry = 1
             and orientation = 0 and tolerances = 1
             and rq' = "setGoalConfiguration toy_robot_state toy_constraints [1 / 4]
                 (setGoalConfiguration toy_robot_state toy_constraints [1 / 2] toy_request)"]
  by (simp add: toy_robot_state_def)

text \<open>
  C9. With its pipeline unset, \<open>PipelinePlanner::plan\<close> returns the default-constructed
  response, whose error code is not \<open>SUCCESS\<close>, and makes no call to a backend. When
  \<open>getPlanningContext\<close> gives no context, \<open>OMPLInterfacePlanner::plan\<close> returns the
  default-constructed response with the error code \<open>FAILURE\<close> and does not call
  \<open>solve\<close>.
\<close>

theorem plan_without_backend:
  "PipelinePlanner_plan generate None scn rq = (MotionPlanResponse, None, [])
   \<and> error_code_val (fst (PipelinePlanner_plan generate None scn rq)) \<noteq> SUCCESS
   \<and> (fst (getPlanningContext interface scn rq') = None \<longrightarrow>
        fst (OMPLInterfacePlanner_plan getPlanningContext clr solve interface scn rq') =
          MotionPlanResponse\<lparr>error_code_val := FAILURE\<rparr>
        \<and> error_code_val
             (fst (OMPLInterfacePlanner_plan getPlanningContext clr solve interface scn rq')) =
            FAILURE
        \<and> Solve \<notin> set (snd (snd
             (OMPLInterfacePlanner_plan getPlanningContext clr solve interface scn rq'))))"
  by (simp add: PipelinePlanner_plan_def OMPLInterfacePlanner_plan_def MotionPlanResponse_def
      SUCCESS_def FAILURE_def Let_def split_def)

theorem plan_without_backend_witness:
  "fst ((\<lambda>(i :: nat) (sc :: unit) (r :: (joints, joints) MotionPlanRequest).
           (None :: nat option, Suc i)) 0 () (request toy_world)) = None
   \<and> OMPLInterfacePlanner_plan (\<lambda>i sc r. (None :: nat option, Suc i)) (\<lambda>c. c)
        (\<lambda>c (res :: toy_response). (True, res\<lparr>error_code_val := SUCCESS\<rparr>)) (0 :: nat) ()
        (request toy_world) =
       (\<lparr>trajectory = None, planning_time = 0, error_code_val = FAILURE\<rparr>, 1,
        [GetPlanningContext])
   \<and> PipelinePlanner_plan toy_generatePlan None () (request toy_world) =
       (\<lparr>trajectory = None, planning_time = 0, error_code_val = 0\<rparr>, None, [])"
  using plan_without_backend
          [where generate = toy_generatePlan and scn = "()" and rq = "request toy_world"
             and getPlanningContext =
               "\<lambda>(i :: nat) (sc :: unit) (r :: (joints, joints) MotionPlanRequest).
                  (None :: nat option, Suc i)"
             and interface = 0 and rq' = "request toy_world" and clr = "\<lambda>c. c"
             and solve = "\<lambda>c (res :: toy_response). (True, res\<lparr>error_code_val := SUCCESS\<rparr>)"]
  by (simp add: OMPLInterfacePlanner_plan_def MotionPlanResponse_def)

text \<open>
  C10. The claim is that every iteration leaves the robot's state unchanged. The
  callbacks get the robot by reference, and with a constraint helper that moves the robot
  the state after the iteration is not the state before it. What the iteration does: let
  setting the robot to a state vector read from the robot make \<open>getState\<close> give that
  vector again. Then the part that saves the robot's state, sets it to the final joint
  positions of the response, reads it back and restores it leaves the robot's state as it
  found it: after the iteration the robot's state is what it was when the second callback
  returned, and so what it was before the iteration when the callbacks left it alone.
\<close>

theorem plan_linearly_restores_robot:
  assumes "\<And>rb rb'. getState env (setState env (getState env rb) rb') = getState env rb"
  shows "getState env (robot (objects (plan_and_reseed env st))) =
           getState env (robot (objects st))
   \<and> (let w1 = constraint_helper_planLinearly_Callback env goal_conf
                  (next_start_joint_positions st) (objects st);
            w2 = scene_graph_helper_planLinearly_Callback env goal_conf w1
        in getState env (robot (objects (iteration env goal_conf st))) = getState env (robot w2)
         \<and> (getState env (robot w2) = getState env (robot (objects st))
              \<longrightarrow> getState env (robot (objects (iteration env goal_conf st))) =
                    getState env (robot (objects st))))"
  using assms
  by (simp add: iteration_def state_after_plan_and_reseed run_callbacks_def Let_def)

theorem plan_linearly_restores_robot_witness:
  "(\<forall>rb rb'. getState toy_env (setState toy_env (getState toy_env rb) rb') = getState toy_env rb)
   \<and> getState toy_env (robot (objects (iteration toy_env [1 / 2] (before_loop toy_world)))) =
       getState toy_env (robot toy_world)
   \<and> getState toy_env (robot toy_world) = [0, 0, 0, 0, 0, 0, 1, 0]"
proof -
  have law: "\<And>rb rb'. getState toy_env (setState toy_env (getState toy_env rb) rb') =
      getState toy_env rb"
    by (simp add: toy_env_def)
  show ?thesis
    using plan_linearly_restores_robot
            [where env = toy_env and st = "before_loop toy_world" and goal_conf = "[1 / 2]",
             OF law] law
    by (simp add: before_loop_def toy_env_def toy_world_def Let_def)
qed

theorem plan_linearly_restores_robot_counterexample:
  "getState moving_env (robot (objects (iteration moving_env [1 / 2] (before_loop toy_world)))) \<noteq>
     getState moving_env (robot toy_world)"
  by (simp add: moving_env_def toy_defs Let_def)

end
